theory Spec2Isabelle
  imports Main
begin

section \<open>Data model\<close>

text \<open>
  The backend keeps one document per user (the Mongoose model \<^verbatim>\<open>User\<close>) and reaches three
  outside services: the PayPal SDK, the Gemini API and the JWT library. The documents are
  modelled as records, the collection as an association list in insertion order (so that
  \<^verbatim>\<open>findOne\<close> can scan it), a nullable or absent string as \<open>string option\<close>, a date as
  its number of milliseconds since the epoch, and a JavaScript number that counts things as
  \<open>int\<close>. A thrown JavaScript error is a value of \<open>js_error\<close>.

  The record \<open>subscription_doc\<close> holds every path under \<^verbatim>\<open>subscription\<close> that the code reads
  or writes: the six paths of the schema, and \<^verbatim>\<open>orderId\<close> and \<^verbatim>\<open>pendingPlanId\<close>, which the
  webhook handlers use although the schema does not declare them.
\<close>

type_synonym user_id = string
type_synonym date = int

datatype js_error = Error string

record subscription_doc =
  status :: "string option"
  planId :: "string option"
  customerId :: "string option"
  orderId :: "string option"
  sub_pendingPlanId :: "string option"
  startDate :: "date option"
  endDate :: "date option"
  isActive :: bool

record payment_doc =
  pendingOrderId :: "string option"
  pendingPlanId :: "string option"

record user_doc =
  subscription :: subscription_doc
  payment :: payment_doc
  usageLimit :: int
  usageCount :: int

record content_doc =
  content_user :: user_id
  prompt :: string
  generatedContent :: string
  contentType :: string

text \<open>Every request to an outside service is appended to a log, so that "no call was made"
  is a statement about the state.\<close>

datatype ext_call =
    PaypalCapture string
  | PaypalVerify
  | GeminiGenerate string string

record world =
  users :: "(user_id \<times> user_doc) list"
  contents :: "content_doc list"
  calls :: "ext_call list"

text \<open>A webhook delivery: the request headers and the event. The handlers read
  \<^verbatim>\<open>event.resource.supplementary_data.related_ids.order_id\<close> and
  \<^verbatim>\<open>event.resource.payer.payer_id\<close>; such a read throws a TypeError when an object on the
  way is missing (\<open>None\<close> here), and gives the value, possibly undefined, otherwise.\<close>

record webhook_event =
  event_type :: "string option"
  order_id :: "string option option"
  payer_id :: "string option option"

record webhook_request =
  req_headers :: "(string \<times> string) list"
  req_event :: webhook_event

text \<open>What the process environment and the outside services answer: the PayPal client id,
  the status of the order PayPal returns to a capture request, the verification status it
  returns for a webhook delivery, the text Gemini generates, whether saving a content document
  fails, and whether the database connection is ready. A service that fails answers with the
  error the client library throws.\<close>

record env =
  PAYPAL_CLIENT_ID :: "string option"
  paypal_capture :: "string \<Rightarrow> js_error + string"
  paypal_verify :: "webhook_request \<Rightarrow> js_error + string"
  gemini :: "string \<Rightarrow> string \<Rightarrow> js_error + string"
  content_save :: "content_doc \<Rightarrow> js_error option"
  db_ready :: bool

text \<open>A response: the HTTP status and the JSON body. Bodies that only carry a message are
  \<open>Msg\<close>; the others keep the fields the handlers fill in.\<close>

record subscription_view =
  view_status :: "string option"
  view_planId :: "string option"
  view_startDate :: "date option"
  view_endDate :: "date option"
  view_isActive :: bool
  view_daysRemaining :: "int option"
  view_usageLimit :: int
  view_usageCount :: int

datatype body =
    Msg string
  | MsgError string string
  | LimitReached
  | SubscriptionExpired
  | ContentJson content_doc
  | GeminiJson string string
  | OrderCreated string
  | CaptureCompleted "string option"
  | PaymentNotCompleted string
  | SubscriptionJson subscription_view

datatype reply = Reply nat body

fun http_status :: "reply \<Rightarrow> nat" where
  "http_status (Reply c b) = c"

section \<open>The user collection\<close>

definition findById :: "user_id \<Rightarrow> world \<Rightarrow> user_doc option" where
  "findById uid w = map_of (users w) uid"

fun update_first :: "user_id \<Rightarrow> (user_doc \<Rightarrow> user_doc) \<Rightarrow> (user_id \<times> user_doc) list
    \<Rightarrow> (user_id \<times> user_doc) list" where
  "update_first uid f [] = []"
| "update_first uid f ((k, u) # rest) =
     (if k = uid then (k, f u) # rest else (k, u) # update_first uid f rest)"

text \<open>\<^verbatim>\<open>User.findByIdAndUpdate(id, patch)\<close>: the patch is applied to the document with that
  id; nothing happens when there is none.\<close>

definition findByIdAndUpdate :: "user_id \<Rightarrow> (user_doc \<Rightarrow> user_doc) \<Rightarrow> world \<Rightarrow> world" where
  "findByIdAndUpdate uid f w = w\<lparr>users := update_first uid f (users w)\<rparr>"

text \<open>\<^verbatim>\<open>User.findOne({ 'subscription.orderId': orderId })\<close>: the first document whose
  \<^verbatim>\<open>subscription.orderId\<close> is the given value.\<close>

definition findOneByOrderId :: "string option \<Rightarrow> world \<Rightarrow> (user_id \<times> user_doc) option" where
  "findOneByOrderId oid w = find (\<lambda>(k, u). orderId (subscription u) = oid) (users w)"

section \<open>JavaScript helpers\<close>

text \<open>\<^verbatim>\<open>!s\<close> is false exactly for a string that is present and not empty.\<close>

definition truthy :: "string option \<Rightarrow> bool" where
  "truthy s = (case s of None \<Rightarrow> False | Some v \<Rightarrow> v \<noteq> [])"

definition startsWith :: "string \<Rightarrow> string \<Rightarrow> bool" where
  "startsWith s p = (take (length p) s = p)"


text \<open>A number of days in milliseconds. \<^verbatim>\<open>setDate(getDate() + 30)\<close> moves a date by thirty
  calendar days, which is this many milliseconds when no clock change falls in between.\<close>

definition days :: "int \<Rightarrow> int" where
  "days n = n * (1000 * 60 * 60 * 24)"

text \<open>The decimal digits of a number, for \<^verbatim>\<open>`TEST-ORDER-${Date.now()}`\<close>.\<close>

function show_nat :: "nat \<Rightarrow> string" where
  "show_nat n =
    (if n < 10 then [''0123456789'' ! n]
     else show_nat (n div 10) @ [''0123456789'' ! (n mod 10)])"
  by pat_completeness auto
termination
  by (relation "measure (\<lambda>n. n)") auto

declare show_nat.simps [simp del]

definition show_int :: "int \<Rightarrow> string" where
  "show_int i = (if i < 0 then CHR ''-'' # show_nat (nat (- i)) else show_nat (nat i))"

section \<open>The plan catalog\<close>

text \<open>\<^verbatim>\<open>GET /api/payments/plans\<close> answers with a fixed list. Prices are in cents.\<close>

record plan =
  plan_id :: string
  plan_name :: string
  price_cents :: nat
  features :: "string list"
  limits_usageLimit :: int

definition plans :: "plan list" where
  "plans =
    [\<lparr>plan_id = ''free'', plan_name = ''Free'', price_cents = 0,
      features = [''5 AI generations per month'', ''Basic content types'',
        ''Standard quality'', ''No download options''],
      limits_usageLimit = 5\<rparr>,
     \<lparr>plan_id = ''basic'', plan_name = ''Basic'', price_cents = 999,
      features = [''50 AI generations per month'', ''All content types'',
        ''High quality content'', ''Download as PDF and Markdown''],
      limits_usageLimit = 50\<rparr>,
     \<lparr>plan_id = ''premium'', plan_name = ''Premium'', price_cents = 1999,
      features = [''Unlimited AI generations'', ''All content types'',
        ''Highest quality content'', ''All download options'', ''Priority support''],
      limits_usageLimit = 9999\<rparr>]"

text \<open>The quota the catalog gives a plan id, if it lists the plan.\<close>

definition catalog_quota :: "string \<Rightarrow> int option" where
  "catalog_quota pid = map_option limits_usageLimit (find (\<lambda>p. plan_id p = pid) plans)"

section \<open>Middleware\<close>

text \<open>\<^verbatim>\<open>auth\<close> reads the token header, has the JWT library verify it and loads the user the
  token names. The three outcomes of the header and the library are the input here.\<close>

datatype token_check = NoToken | InvalidToken string | Decoded user_id

definition auth :: "token_check \<Rightarrow> world \<Rightarrow> reply + (user_id \<times> user_doc)" where
  "auth tc w =
    (case tc of
       NoToken \<Rightarrow> Inl (Reply 401 (Msg ''No token, authorization denied''))
     | InvalidToken m \<Rightarrow> Inl (Reply 401 (MsgError ''Token is not valid'' m))
     | Decoded uid \<Rightarrow>
         (case findById uid w of
            None \<Rightarrow> Inl (Reply 401 (Msg ''User not found''))
          | Some user \<Rightarrow> Inr (uid, user)))"

text \<open>\<^verbatim>\<open>checkSubscription\<close> works on \<^verbatim>\<open>req.user\<close>, the document \<^verbatim>\<open>auth\<close> loaded. It answers
  with a response, or with \<open>None\<close> when it calls \<^verbatim>\<open>next()\<close>.\<close>

definition expired :: "date option \<Rightarrow> date \<Rightarrow> bool" where
  "expired d now = (case d of None \<Rightarrow> False | Some e \<Rightarrow> e < now)"

definition checkSubscription :: "date \<Rightarrow> (user_id \<times> user_doc) option \<Rightarrow> world
    \<Rightarrow> reply option \<times> world" where
  "checkSubscription now req_user w =
    (case req_user of
       None \<Rightarrow> (Some (Reply 401 (Msg ''User not authenticated'')), w)
     | Some (uid, user) \<Rightarrow>
         if status (subscription user) = Some ''free'' \<and> usageCount user \<ge> usageLimit user
         then (Some (Reply 403 LimitReached), w)
         else if status (subscription user) \<in> {Some ''basic'', Some ''premium''}
                 \<and> expired (endDate (subscription user)) now
         then (Some (Reply 403 SubscriptionExpired),
               findByIdAndUpdate uid
                 (\<lambda>u. u\<lparr>subscription := (subscription u)\<lparr>status := Some ''free''\<rparr>\<rparr>) w)
         else (None, w))"

section \<open>Content routes\<close>







section \<open>The PayPal client\<close>

text \<open>With no client id, or the client id \<^verbatim>\<open>sb\<close>, orders are mocked.\<close>

definition sandbox :: "env \<Rightarrow> bool" where
  "sandbox e = (if PAYPAL_CLIENT_ID e = Some ''sb'' then True else \<not> truthy (PAYPAL_CLIENT_ID e))"

text \<open>\<^verbatim>\<open>createOrder(planId, userId)\<close> returns the order; its id is all the callers use. Outside
  the sandbox the function builds the request as an object literal and calls
  \<^verbatim>\<open>request.prefer(...)\<close> on it, which is not a function: it throws before any request is
  sent.\<close>

definition createOrder :: "env \<Rightarrow> date \<Rightarrow> string \<Rightarrow> user_id \<Rightarrow> js_error + string" where
  "createOrder e now pid uid =
    (if pid \<in> {''basic'', ''premium''}
     then (if sandbox e then Inr (''TEST-ORDER-'' @ show_int now)
           else Inl (Error ''request.prefer is not a function''))
     else Inl (Error ''Invalid plan ID''))"

text \<open>\<^verbatim>\<open>captureOrder(orderId)\<close> returns the captured order; its status is all the caller
  uses.\<close>

definition captureOrder :: "env \<Rightarrow> string \<Rightarrow> world \<Rightarrow> (js_error + string) \<times> world" where
  "captureOrder e oid w =
    (if sandbox e \<and> startsWith oid ''TEST-ORDER-'' then (Inr ''COMPLETED'', w)
     else (paypal_capture e oid, w\<lparr>calls := calls w @ [PaypalCapture oid]\<rparr>))"

text \<open>\<^verbatim>\<open>verifyWebhookSignature(webhookId, event, requestHeaders)\<close>: the whole body is inside
  \<^verbatim>\<open>try\<close>, and the \<^verbatim>\<open>catch\<close> returns false. The result type leaves room for a thrown
  error, so that "it never throws" is a property of the function.\<close>

definition verifyWebhookSignature :: "env \<Rightarrow> webhook_request \<Rightarrow> world
    \<Rightarrow> (js_error + bool) \<times> world" where
  "verifyWebhookSignature e rq w =
    (let w1 = w\<lparr>calls := calls w @ [PaypalVerify]\<rparr>
     in case paypal_verify e rq of
          Inl err \<Rightarrow> (Inr False, w1)
        | Inr verification_status \<Rightarrow> (Inr (verification_status = ''SUCCESS''), w1))"

section \<open>Payment routes\<close>

text \<open>\<^verbatim>\<open>POST /api/payments/create-order\<close>.\<close>

definition create_order_handler :: "env \<Rightarrow> date \<Rightarrow> user_id \<Rightarrow> string option \<Rightarrow> world
    \<Rightarrow> reply \<times> world" where
  "create_order_handler e now uid req_planId w =
    (case req_planId of
       None \<Rightarrow> (Reply 400 (Msg ''Invalid plan selected''), w)
     | Some pid \<Rightarrow>
        if pid \<in> {''basic'', ''premium''}
        then (case createOrder e now pid uid of
                Inl (Error m) \<Rightarrow> (Reply 500 (MsgError ''Server error'' m), w)
              | Inr oid \<Rightarrow>
                  if oid = [] then (Reply 500 (Msg ''Error creating PayPal order''), w)
                  else (Reply 200 (OrderCreated oid),
                        findByIdAndUpdate uid
                          (\<lambda>u. u\<lparr>payment := (payment u)\<lparr>pendingOrderId := Some oid,
                                                          pendingPlanId := Some pid\<rparr>\<rparr>) w))
        else (Reply 400 (Msg ''Invalid plan selected''), w))"

definition post_create_order :: "env \<Rightarrow> date \<Rightarrow> token_check \<Rightarrow> string option \<Rightarrow> world
    \<Rightarrow> reply \<times> world" where
  "post_create_order e now tc req_planId w =
    (case auth tc w of
       Inl r \<Rightarrow> (r, w)
     | Inr (uid, user) \<Rightarrow> create_order_handler e now uid req_planId w)"

text \<open>\<^verbatim>\<open>handleCompletedPayment(user, planId)\<close>, the capture path's update: eight dotted paths
  and the two counters are set, everything else in the document stays.\<close>

definition handleCompletedPayment :: "date \<Rightarrow> user_id \<Rightarrow> string option \<Rightarrow> world \<Rightarrow> world" where
  "handleCompletedPayment now uid pid w =
    (let limit = (if pid = Some ''basic'' then 50 else if pid = Some ''premium'' then 200 else 10)
     in findByIdAndUpdate uid
          (\<lambda>u. u\<lparr>subscription := (subscription u)\<lparr>status := pid, planId := pid,
                   startDate := Some now, endDate := Some (now + days 30), isActive := True\<rparr>,
                 payment := (payment u)\<lparr>pendingOrderId := None, pendingPlanId := None\<rparr>,
                 usageLimit := limit,
                 usageCount := 0\<rparr>) w)"

text \<open>\<^verbatim>\<open>POST /api/payments/capture-order\<close>.\<close>

definition capture_order_handler :: "env \<Rightarrow> date \<Rightarrow> user_id \<Rightarrow> string option \<Rightarrow> world
    \<Rightarrow> reply \<times> world" where
  "capture_order_handler e now uid req_orderId w =
    (case req_orderId of
       None \<Rightarrow> (Reply 400 (Msg ''Order ID is required''), w)
     | Some oid \<Rightarrow>
        if oid = [] then (Reply 400 (Msg ''Order ID is required''), w)
        else
          (case findById uid w of
             None \<Rightarrow> (Reply 404 (Msg ''User not found''), w)
           | Some user \<Rightarrow>
              if pendingOrderId (payment user) \<noteq> Some oid
              then (Reply 400 (Msg ''Order ID does not match pending order''), w)
              else
                (case captureOrder e oid w of
                   (Inl (Error m), w1) \<Rightarrow> (Reply 500 (MsgError ''Server error'' m), w1)
                 | (Inr capture_status, w1) \<Rightarrow>
                     if capture_status = ''COMPLETED''
                     then (let pid = pendingPlanId (payment user)
                           in (Reply 200 (CaptureCompleted pid),
                               handleCompletedPayment now uid pid w1))
                     else (Reply 400 (PaymentNotCompleted capture_status), w1))))"

definition post_capture_order :: "env \<Rightarrow> date \<Rightarrow> token_check \<Rightarrow> string option \<Rightarrow> world
    \<Rightarrow> reply \<times> world" where
  "post_capture_order e now tc req_orderId w =
    (case auth tc w of
       Inl r \<Rightarrow> (r, w)
     | Inr (uid, user) \<Rightarrow> capture_order_handler e now uid req_orderId w)"

text \<open>The two webhook handlers replace the whole \<^verbatim>\<open>subscription\<close> object: a path the new
  object does not list (\<^verbatim>\<open>isActive\<close>, \<^verbatim>\<open>pendingPlanId\<close>) is gone from the stored
  document, and reads as the schema's default (\<^verbatim>\<open>false\<close>) or as undefined afterwards.
  They return normally, or throw.\<close>

definition handlePaymentCompleted :: "date \<Rightarrow> webhook_event \<Rightarrow> world \<Rightarrow> js_error + world" where
  "handlePaymentCompleted now event w =
    (case order_id event of
       None \<Rightarrow> Inl (Error ''TypeError'')
     | Some oid \<Rightarrow>
        (case payer_id event of
           None \<Rightarrow> Inl (Error ''TypeError'')
         | Some payerId \<Rightarrow>
            (case findOneByOrderId oid w of
               None \<Rightarrow> Inr w
             | Some (uid, user) \<Rightarrow>
                if status (subscription user) = Some ''free''
                then (let pid = (case sub_pendingPlanId (subscription user) of
                                   None \<Rightarrow> ''basic''
                                 | Some p \<Rightarrow> if p = [] then ''basic'' else p);
                          limit = (if pid = ''basic'' then 50 else 9999)
                      in Inr (findByIdAndUpdate uid
                           (\<lambda>u. u\<lparr>subscription :=
                                    \<lparr>status = Some pid, planId = Some pid, customerId = payerId,
                                     orderId = oid, sub_pendingPlanId = None,
                                     startDate = Some now, endDate = Some (now + days 30),
                                     isActive = False\<rparr>,
                                  usageLimit := limit,
                                  usageCount := 0\<rparr>) w))
                else Inr w)))"

definition handlePaymentDeniedOrRefunded :: "webhook_event \<Rightarrow> world \<Rightarrow> js_error + world" where
  "handlePaymentDeniedOrRefunded event w =
    (case order_id event of
       None \<Rightarrow> Inl (Error ''TypeError'')
     | Some oid \<Rightarrow>
        (case findOneByOrderId oid w of
           None \<Rightarrow> Inr w
         | Some (uid, user) \<Rightarrow>
            Inr (findByIdAndUpdate uid
                  (\<lambda>u. u\<lparr>subscription :=
                           \<lparr>status = Some ''free'', planId = Some ''free'',
                            customerId = customerId (subscription user),
                            orderId = None, sub_pendingPlanId = None,
                            startDate = None, endDate = None, isActive = False\<rparr>,
                         usageLimit := 5\<rparr>) w)))"

text \<open>\<^verbatim>\<open>POST /api/payments/webhook\<close>: no \<^verbatim>\<open>auth\<close> middleware.\<close>

definition post_webhook :: "env \<Rightarrow> date \<Rightarrow> webhook_request \<Rightarrow> world \<Rightarrow> reply \<times> world" where
  "post_webhook e now rq w =
    (case verifyWebhookSignature e rq w of
       (Inl err, w1) \<Rightarrow> (Reply 500 (Msg ''Server Error''), w1)
     | (Inr isValid, w1) \<Rightarrow>
        if \<not> isValid then (Reply 401 (Msg ''Invalid webhook signature''), w1)
        else
          (let event = req_event rq;
               handled =
                 (if event_type event = Some ''PAYMENT.CAPTURE.COMPLETED''
                  then handlePaymentCompleted now event w1
                  else if event_type event \<in> {Some ''PAYMENT.CAPTURE.DENIED'',
                                               Some ''PAYMENT.CAPTURE.REFUNDED''}
                  then handlePaymentDeniedOrRefunded event w1
                  else Inr w1)
           in case handled of
                Inl err \<Rightarrow> (Reply 500 (Msg ''Server Error''), w1)
              | Inr w2 \<Rightarrow> (Reply 200 (Msg ''Webhook received''), w2)))"

text \<open>\<^verbatim>\<open>GET /api/payments/subscription\<close>. The response's \<^verbatim>\<open>usagePercentage\<close>, a
  floating-point quotient, is left out of the view.\<close>

definition days_remaining :: "date \<Rightarrow> date \<Rightarrow> int" where
  "days_remaining e now = - ((now - e) div days 1)"

definition subscription_handler :: "date \<Rightarrow> user_id \<Rightarrow> world \<Rightarrow> reply \<times> world" where
  "subscription_handler now uid w =
    (case findById uid w of
       None \<Rightarrow> (Reply 404 (Msg ''User not found''), w)
     | Some user \<Rightarrow>
        if expired (endDate (subscription user)) now
        then (Reply 200 (SubscriptionJson
                \<lparr>view_status = Some ''free'', view_planId = Some ''free'',
                 view_startDate = None, view_endDate = None, view_isActive = True,
                 view_daysRemaining = None, view_usageLimit = 5,
                 view_usageCount = usageCount user\<rparr>),
              findByIdAndUpdate uid
                (\<lambda>u. u\<lparr>subscription :=
                         \<lparr>status = Some ''free'', planId = Some ''free'',
                          customerId = customerId (subscription user),
                          orderId = None, sub_pendingPlanId = None,
                          startDate = None, endDate = None, isActive = False\<rparr>,
                       usageLimit := 5\<rparr>) w)
        else (Reply 200 (SubscriptionJson
                \<lparr>view_status = status (subscription user),
                 view_planId = planId (subscription user),
                 view_startDate = startDate (subscription user),
                 view_endDate = endDate (subscription user),
                 view_isActive = (status (subscription user) \<noteq> Some ''free''),
                 view_daysRemaining =
                   map_option (\<lambda>e. days_remaining e now) (endDate (subscription user)),
                 view_usageLimit = usageLimit user,
                 view_usageCount = usageCount user\<rparr>), w))"

definition get_subscription :: "date \<Rightarrow> token_check \<Rightarrow> world \<Rightarrow> reply \<times> world" where
  "get_subscription now tc w =
    (case auth tc w of
       Inl r \<Rightarrow> (r, w)
     | Inr (uid, user) \<Rightarrow> subscription_handler now uid w)"

section \<open>Example states\<close>

text \<open>A user document as the schema's defaults create it, a collection holding one user, and
  the states that user goes through: an order pending for a plan, and a plan active since a
  given moment with a given quota.\<close>

definition new_user :: user_doc where
  "new_user =
    \<lparr>subscription = \<lparr>status = Some ''free'', planId = None, customerId = None, orderId = None,
       sub_pendingPlanId = None, startDate = None, endDate = None, isActive = False\<rparr>,
     payment = \<lparr>pendingOrderId = None, pendingPlanId = None\<rparr>,
     usageLimit = 5, usageCount = 0\<rparr>"

definition world_of :: "user_doc \<Rightarrow> world" where
  "world_of u = \<lparr>users = [(''u1'', u)], contents = [], calls = []\<rparr>"

definition pending_user :: "string \<Rightarrow> user_doc" where
  "pending_user pid =
     new_user\<lparr>payment := \<lparr>pendingOrderId = Some ''TEST-ORDER-1000'', pendingPlanId = Some pid\<rparr>\<rparr>"

definition active_user :: "string \<Rightarrow> int \<Rightarrow> date \<Rightarrow> user_doc" where
  "active_user pid limit start =
     new_user\<lparr>subscription := (subscription new_user)\<lparr>status := Some pid, planId := Some pid,
                 startDate := Some start, endDate := Some (start + days 30), isActive := True\<rparr>,
               usageLimit := limit\<rparr>"

text \<open>A user whose \<^verbatim>\<open>subscription.orderId\<close> is set, as the webhook handlers look users up.\<close>

definition linked_user :: "user_doc \<Rightarrow> string \<Rightarrow> user_doc" where
  "linked_user u oid = u\<lparr>subscription := (subscription u)\<lparr>orderId := Some oid,
                                                          customerId := Some ''PAYER1''\<rparr>\<rparr>"

text \<open>A sandbox configuration. Its PayPal accepts the signature \<^verbatim>\<open>valid\<close>, answers
  \<^verbatim>\<open>FAILURE\<close> to any other, and cannot be reached when the signature header is missing.\<close>

definition signature_ok :: "webhook_request \<Rightarrow> js_error + string" where
  "signature_ok rq =
    (case map_of (req_headers rq) ''paypal-transmission-sig'' of
       None \<Rightarrow> Inl (Error ''provider_unavailable'')
     | Some s \<Rightarrow> if s = ''valid'' then Inr ''SUCCESS'' else Inr ''FAILURE'')"

definition sandbox_env :: env where
  "sandbox_env =
    \<lparr>PAYPAL_CLIENT_ID = Some ''sb'',
     paypal_capture = (\<lambda>oid. Inr ''COMPLETED''),
     paypal_verify = signature_ok,
     gemini = (\<lambda>p ct. Inr (''text for '' @ p)),
     content_save = (\<lambda>c. None),
     db_ready = True\<rparr>"

definition webhook_delivery :: "string option \<Rightarrow> string \<Rightarrow> string \<Rightarrow> webhook_request" where
  "webhook_delivery sig ty oid =
    \<lparr>req_headers = (case sig of None \<Rightarrow> [] | Some s \<Rightarrow> [(''paypal-transmission-sig'', s)]),
     req_event = \<lparr>event_type = Some ty, order_id = Some (Some oid),
                  payer_id = Some (Some ''PAYER1'')\<rparr>\<rparr>"

text \<open>A user active on premium whose \<^verbatim>\<open>subscription.orderId\<close> is set and who has staged
  another order since.\<close>

definition reordering_user :: "string \<Rightarrow> string \<Rightarrow> user_doc" where
  "reordering_user oid oid' =
     (linked_user (active_user ''premium'' 9999 2000) oid)
       \<lparr>payment := \<lparr>pendingOrderId = Some oid', pendingPlanId = Some ''basic''\<rparr>\<rparr>"

text \<open>A free user as the webhook handler for completed payments expects one: found by
  \<^verbatim>\<open>subscription.orderId\<close>, with premium in \<^verbatim>\<open>subscription.pendingPlanId\<close>.\<close>

definition webhook_premium_user :: "string \<Rightarrow> user_doc" where
  "webhook_premium_user oid =
     (linked_user new_user oid)
       \<lparr>subscription := (subscription (linked_user new_user oid))
          \<lparr>sub_pendingPlanId := Some ''premium''\<rparr>\<rparr>"

text \<open>A stale paid user after the guard's downgrade, and a content request with its result.\<close>

definition downgraded :: "user_doc \<Rightarrow> user_doc" where
  "downgraded u = u\<lparr>subscription := (subscription u)\<lparr>status := Some ''free''\<rparr>\<rparr>"



section \<open>Facts about the collection and the middleware\<close>

lemma map_of_update_first:
  "map_of (update_first uid f xs) k =
     (if k = uid then map_option f (map_of xs uid) else map_of xs k)"
  by (induction xs) auto

lemma findById_findByIdAndUpdate:
  "findById k (findByIdAndUpdate uid f w) =
     (if k = uid then map_option f (findById uid w) else findById k w)"
  by (simp add: findById_def findByIdAndUpdate_def map_of_update_first)

lemma findById_calls [simp]: "findById uid (w\<lparr>calls := c\<rparr>) = findById uid w"
  by (simp add: findById_def)

lemma findById_contents [simp]: "findById uid (w\<lparr>contents := c\<rparr>) = findById uid w"
  by (simp add: findById_def)

lemma auth_Inr:
  "auth tc w = Inr (uid, user) \<longleftrightarrow> tc = Decoded uid \<and> findById uid w = Some user"
  by (auto simp: auth_def split: token_check.splits option.splits)

lemma auth_Inl: "auth tc w = Inl r \<Longrightarrow> http_status r = 401"
  by (auto simp: auth_def split: token_check.splits option.splits)

lemma captureOrder_findById:
  "captureOrder e oid w = (r, w1) \<Longrightarrow> findById uid w1 = findById uid w"
  by (auto simp: captureOrder_def findById_def split: if_splits)

lemma handleCompletedPayment_pending:
  "findById uid w = Some user \<Longrightarrow>
   \<exists>u'. findById uid (handleCompletedPayment now uid pid w) = Some u'
      \<and> pendingOrderId (payment u') = None"
  by (simp add: handleCompletedPayment_def findById_findByIdAndUpdate Let_def)

text \<open>The scenario the examples share: from the fresh user, \<^verbatim>\<open>create-order\<close> for premium
  in the sandbox at time 1000 stages the order; \<^verbatim>\<open>capture-order\<close> at time 2000 activates the
  plan.\<close>

lemma show_1000: "show_int 1000 = ''1000''"
  by (simp add: show_int_def show_nat.simps)

lemma create_order_premium:
  "post_create_order sandbox_env 1000 (Decoded ''u1'') (Some ''premium'') (world_of new_user) =
     (Reply 200 (OrderCreated ''TEST-ORDER-1000''), world_of (pending_user ''premium''))"
  by (simp add: post_create_order_def create_order_handler_def createOrder_def auth_def
        findById_def world_of_def new_user_def pending_user_def sandbox_def sandbox_env_def
        show_1000 findByIdAndUpdate_def)

lemma capture_premium:
  "post_capture_order sandbox_env 2000 (Decoded ''u1'') (Some ''TEST-ORDER-1000'')
       (world_of (pending_user ''premium'')) =
     (Reply 200 (CaptureCompleted (Some ''premium'')), world_of (active_user ''premium'' 200 2000))"
  by (simp add: post_capture_order_def capture_order_handler_def captureOrder_def auth_def
        findById_def world_of_def new_user_def pending_user_def active_user_def sandbox_def
        sandbox_env_def startsWith_def handleCompletedPayment_def findByIdAndUpdate_def Let_def)

section \<open>Order binding and repeated capture\<close>

text \<open>
  Claim C1. For an authenticated user, a \<^verbatim>\<open>capture-order\<close> request whose order id is not the
  user's stored \<^verbatim>\<open>payment.pendingOrderId\<close> is answered with status 400 and leaves the whole
  state as it was: no document changes and no capture request goes to PayPal (the call log is
  part of the state). The message is "Order ID does not match pending order" when the request
  carries a non-empty order id, and "Order ID is required" when it carries none.
\<close>

theorem capture_order_mismatch_rejected:
  assumes "auth tc w = Inr (uid, user)"
      and "pendingOrderId (payment user) \<noteq> req_orderId"
  shows "post_capture_order e now tc req_orderId w =
           (Reply 400 (Msg (if truthy req_orderId then ''Order ID does not match pending order''
                            else ''Order ID is required'')), w)"
proof -
  from assms(1) have u: "findById uid w = Some user"
    by (simp add: auth_Inr)
  show ?thesis
    using assms u
    by (auto simp: post_capture_order_def capture_order_handler_def truthy_def
             split: option.splits)
qed

theorem capture_order_mismatch_rejected_witness:
  "post_capture_order sandbox_env 2000 (Decoded ''u1'') (Some ''TEST-ORDER-2000'')
       (world_of (pending_user ''premium'')) =
     (Reply 400 (Msg ''Order ID does not match pending order''),
      world_of (pending_user ''premium''))"
proof -
  have a: "auth (Decoded ''u1'') (world_of (pending_user ''premium'')) =
             Inr (''u1'', pending_user ''premium'')"
    by (simp add: auth_def findById_def world_of_def)
  have b: "pendingOrderId (payment (pending_user ''premium'')) \<noteq> Some ''TEST-ORDER-2000''"
    by (simp add: pending_user_def)
  from capture_order_mismatch_rejected [OF a b, of sandbox_env 2000]
  show ?thesis
    by (simp add: truthy_def)
qed

text \<open>
  Claim C2. When a \<^verbatim>\<open>capture-order\<close> request for an order id has completed and activated
  the plan, a second request with the same order id, whenever it comes and whatever PayPal
  would answer, leaves the whole state as the first call left it: quota, usage count, start
  and end date are not set again. The second request is answered with status 400, "Order ID
  does not match pending order", because the first call cleared the pending order.
\<close>

theorem capture_order_twice_unchanged:
  assumes "post_capture_order e now tc (Some oid) w = (Reply 200 (CaptureCompleted pid), w1)"
  shows "post_capture_order e' now' tc (Some oid) w1 =
           (Reply 400 (Msg ''Order ID does not match pending order''), w1)"
proof -
  from assms obtain uid user where a: "auth tc w = Inr (uid, user)"
    by (auto simp: post_capture_order_def split: sum.splits dest: auth_Inl)
  then have tc: "tc = Decoded uid" and u: "findById uid w = Some user"
    by (simp_all add: auth_Inr)
  from assms a
  have h: "capture_order_handler e now uid (Some oid) w = (Reply 200 (CaptureCompleted pid), w1)"
    by (simp add: post_capture_order_def)
  from h u have ne: "oid \<noteq> []"
    by (auto simp: capture_order_handler_def split: if_splits)
  from h u ne obtain r wc where c: "captureOrder e oid w = (r, wc)"
    and w1: "w1 = handleCompletedPayment now uid (pendingPlanId (payment user)) wc"
    by (auto simp: capture_order_handler_def Let_def
             split: if_splits sum.splits prod.splits js_error.splits)
  from c u have "findById uid wc = Some user"
    by (simp add: captureOrder_findById)
  then obtain u' where u': "findById uid w1 = Some u'" and p: "pendingOrderId (payment u') = None"
    unfolding w1 using handleCompletedPayment_pending by blast
  from u' tc have "auth tc w1 = Inr (uid, u')"
    by (simp add: auth_Inr)
  then show ?thesis
    using u' p ne by (simp add: post_capture_order_def capture_order_handler_def)
qed

theorem capture_order_twice_unchanged_witness:
  "post_capture_order sandbox_env 2000 (Decoded ''u1'') (Some ''TEST-ORDER-1000'')
       (world_of (pending_user ''premium'')) =
     (Reply 200 (CaptureCompleted (Some ''premium'')), world_of (active_user ''premium'' 200 2000))
   \<and> post_capture_order sandbox_env 3000 (Decoded ''u1'') (Some ''TEST-ORDER-1000'')
       (world_of (active_user ''premium'' 200 2000)) =
     (Reply 400 (Msg ''Order ID does not match pending order''),
      world_of (active_user ''premium'' 200 2000))"
  using capture_premium capture_order_twice_unchanged [OF capture_premium, of sandbox_env 3000]
  by simp

section \<open>Webhook verification\<close>

text \<open>
  Claim C3. When PayPal does not answer \<^verbatim>\<open>SUCCESS\<close> to the verification request of a
  webhook delivery (it answers another status, or the request fails with an error),
  \<^verbatim>\<open>verifyWebhookSignature\<close> returns false and does not throw, the webhook route answers
  401 "Invalid webhook signature", and no user document and no content document changes.
\<close>

theorem webhook_unverified_rejected:
  assumes "paypal_verify e rq \<noteq> Inr ''SUCCESS''"
  shows "fst (verifyWebhookSignature e rq w) = Inr False
       \<and> fst (post_webhook e now rq w) = Reply 401 (Msg ''Invalid webhook signature'')
       \<and> users (snd (post_webhook e now rq w)) = users w
       \<and> contents (snd (post_webhook e now rq w)) = contents w"
  using assms
  by (auto simp: verifyWebhookSignature_def post_webhook_def Let_def split: sum.splits)

theorem webhook_unverified_rejected_witness:
  "fst (verifyWebhookSignature sandbox_env
          (webhook_delivery None ''PAYMENT.CAPTURE.REFUNDED'' ''TEST-ORDER-1000'')
          (world_of (linked_user (active_user ''premium'' 9999 2000) ''TEST-ORDER-1000''))) = Inr False
   \<and> post_webhook sandbox_env 3000
         (webhook_delivery None ''PAYMENT.CAPTURE.REFUNDED'' ''TEST-ORDER-1000'')
         (world_of (linked_user (active_user ''premium'' 9999 2000) ''TEST-ORDER-1000'')) =
       (Reply 401 (Msg ''Invalid webhook signature''),
        (world_of (linked_user (active_user ''premium'' 9999 2000) ''TEST-ORDER-1000''))
          \<lparr>calls := [PaypalVerify]\<rparr>)
   \<and> fst (post_webhook sandbox_env 3000
         (webhook_delivery (Some ''forged'') ''PAYMENT.CAPTURE.REFUNDED'' ''TEST-ORDER-1000'')
         (world_of (linked_user (active_user ''premium'' 9999 2000) ''TEST-ORDER-1000''))) =
       Reply 401 (Msg ''Invalid webhook signature'')"
proof -
  have a: "paypal_verify sandbox_env
             (webhook_delivery None ''PAYMENT.CAPTURE.REFUNDED'' ''TEST-ORDER-1000'')
           \<noteq> Inr ''SUCCESS''"
    by (simp add: sandbox_env_def signature_ok_def webhook_delivery_def)
  have b: "paypal_verify sandbox_env
             (webhook_delivery (Some ''forged'') ''PAYMENT.CAPTURE.REFUNDED'' ''TEST-ORDER-1000'')
           \<noteq> Inr ''SUCCESS''"
    by (simp add: sandbox_env_def signature_ok_def webhook_delivery_def)
  have c: "snd (post_webhook sandbox_env 3000
         (webhook_delivery None ''PAYMENT.CAPTURE.REFUNDED'' ''TEST-ORDER-1000'')
         (world_of (linked_user (active_user ''premium'' 9999 2000) ''TEST-ORDER-1000''))) =
        (world_of (linked_user (active_user ''premium'' 9999 2000) ''TEST-ORDER-1000''))
          \<lparr>calls := [PaypalVerify]\<rparr>"
    by (simp add: post_webhook_def verifyWebhookSignature_def sandbox_env_def signature_ok_def
          webhook_delivery_def world_of_def)
  from webhook_unverified_rejected [OF a] webhook_unverified_rejected [OF b] c
  show ?thesis
    by (simp add: prod_eq_iff)
qed

section \<open>Expiry on reading the subscription\<close>

text \<open>
  Claim C4. For an authenticated user whose status is premium and whose end date is strictly
  before now, \<^verbatim>\<open>GET /api/payments/subscription\<close> answers 200 with status free and usage
  limit 5, the catalog's quota for the free plan, and the stored document has status free,
  usage limit 5 and no end date when the handler returns.
\<close>

theorem subscription_expired_premium_downgraded:
  assumes "auth tc w = Inr (uid, user)"
      and "status (subscription user) = Some ''premium''"
      and "endDate (subscription user) = Some e"
      and "e < now"
  shows "(\<exists>v. fst (get_subscription now tc w) = Reply 200 (SubscriptionJson v)
            \<and> view_status v = Some ''free''
            \<and> catalog_quota ''free'' = Some (view_usageLimit v)
            \<and> view_usageLimit v = 5)
       \<and> (\<exists>u'. findById uid (snd (get_subscription now tc w)) = Some u'
            \<and> status (subscription u') = Some ''free''
            \<and> catalog_quota ''free'' = Some (usageLimit u')
            \<and> usageLimit u' = 5
            \<and> endDate (subscription u') = None)"
proof -
  from assms(1) have u: "findById uid w = Some user"
    by (simp add: auth_Inr)
  have q: "catalog_quota ''free'' = Some 5"
    by (simp add: catalog_quota_def plans_def)
  show ?thesis
    using assms u q
    by (simp add: get_subscription_def subscription_handler_def expired_def
          findById_findByIdAndUpdate)
qed

theorem subscription_expired_premium_downgraded_witness:
  "(\<exists>v. fst (get_subscription (days 31) (Decoded ''u1'') (world_of (active_user ''premium'' 200 0)))
            = Reply 200 (SubscriptionJson v)
        \<and> view_status v = Some ''free'' \<and> view_usageLimit v = 5)
   \<and> (\<exists>u'. findById ''u1''
              (snd (get_subscription (days 31) (Decoded ''u1'')
                      (world_of (active_user ''premium'' 200 0)))) = Some u'
        \<and> status (subscription u') = Some ''free'' \<and> usageLimit u' = 5
        \<and> endDate (subscription u') = None)"
proof -
  have a: "auth (Decoded ''u1'') (world_of (active_user ''premium'' 200 0)) =
             Inr (''u1'', active_user ''premium'' 200 0)"
    by (simp add: auth_def findById_def world_of_def)
  have b: "status (subscription (active_user ''premium'' 200 0)) = Some ''premium''"
    by (simp add: active_user_def)
  have c: "endDate (subscription (active_user ''premium'' 200 0)) = Some (days 30)"
    by (simp add: active_user_def)
  have d: "days 30 < days 31"
    by (simp add: days_def)
  from subscription_expired_premium_downgraded [OF a b c d]
  show ?thesis
    by blast
qed

section \<open>The entitlement guard\<close>

text \<open>
  Claim C6. For a user whose status is free, \<^verbatim>\<open>checkSubscription\<close> answers 403 with
  \<^verbatim>\<open>limitReached\<close> exactly when \<open>usageCount \<ge> usageLimit\<close> and lets the request through
  otherwise; in both cases the state, and so the usage count, is unchanged.
\<close>

theorem checkSubscription_free_quota_gate:
  assumes "status (subscription user) = Some ''free''"
  shows "checkSubscription now (Some (uid, user)) w =
           (if usageCount user \<ge> usageLimit user then Some (Reply 403 LimitReached) else None, w)"
  using assms by (simp add: checkSubscription_def)

theorem checkSubscription_free_quota_gate_witness:
  "checkSubscription 2000 (Some (''u1'', new_user\<lparr>usageCount := 5\<rparr>))
       (world_of (new_user\<lparr>usageCount := 5\<rparr>)) =
     (Some (Reply 403 LimitReached), world_of (new_user\<lparr>usageCount := 5\<rparr>))
   \<and> checkSubscription 2000 (Some (''u1'', new_user\<lparr>usageCount := 4\<rparr>))
       (world_of (new_user\<lparr>usageCount := 4\<rparr>)) =
     (None, world_of (new_user\<lparr>usageCount := 4\<rparr>))"
proof -
  have a: "status (subscription (new_user\<lparr>usageCount := 5\<rparr>)) = Some ''free''"
    by (simp add: new_user_def)
  have b: "status (subscription (new_user\<lparr>usageCount := 4\<rparr>)) = Some ''free''"
    by (simp add: new_user_def)
  from checkSubscription_free_quota_gate [OF a, of 2000 "''u1''"]
       checkSubscription_free_quota_gate [OF b, of 2000 "''u1''"]
  show ?thesis
    by (simp add: new_user_def)
qed

text \<open>
  Claim C5. The claim says that the guard's lazy downgrade of a stale paid user also resets
  the usage limit to the free plan's quota. The guard only sets \<^verbatim>\<open>subscription.status\<close>: a
  premium user with limit 200 whose plan ended a day ago is answered 403 and stored as free
  with the limit still 200 and the end date still set, while the catalog's free quota is 5
  (and \<^verbatim>\<open>GET /api/payments/subscription\<close> would have stored 5). With 150 generations used
  that user then passes the free-tier gate.
\<close>

theorem checkSubscription_stale_premium_keeps_quota:
  "checkSubscription (days 31) (Some (''u1'', active_user ''premium'' 200 0))
       (world_of (active_user ''premium'' 200 0)) =
     (Some (Reply 403 SubscriptionExpired), world_of (downgraded (active_user ''premium'' 200 0)))
   \<and> status (subscription (downgraded (active_user ''premium'' 200 0))) = Some ''free''
   \<and> usageLimit (downgraded (active_user ''premium'' 200 0)) = 200
   \<and> endDate (subscription (downgraded (active_user ''premium'' 200 0))) = Some (days 30)
   \<and> catalog_quota ''free'' = Some 5
   \<and> checkSubscription (days 31)
        (Some (''u1'', (downgraded (active_user ''premium'' 200 0))\<lparr>usageCount := 150\<rparr>))
        (world_of ((downgraded (active_user ''premium'' 200 0))\<lparr>usageCount := 150\<rparr>)) =
      (None, world_of ((downgraded (active_user ''premium'' 200 0))\<lparr>usageCount := 150\<rparr>))"
  by (simp add: checkSubscription_def active_user_def new_user_def world_of_def downgraded_def
        expired_def days_def findByIdAndUpdate_def catalog_quota_def plans_def)

section \<open>Content routes and the guard\<close>
















section \<open>Webhook events\<close>

text \<open>
  Claim C7. The claim says that a verified payment-completed event finds the user by the order
  reference and applies the plan recorded in the pending-payment slot. \<^verbatim>\<open>create-order\<close>
  records the order in \<^verbatim>\<open>payment.pendingOrderId\<close> and the plan in
  \<^verbatim>\<open>payment.pendingPlanId\<close>; the handler looks the user up by \<^verbatim>\<open>subscription.orderId\<close> and
  reads \<^verbatim>\<open>subscription.pendingPlanId\<close>. So after an order for premium is created, the
  verified event for that order finds no user and changes no document; and a free user whose
  \<^verbatim>\<open>subscription.orderId\<close> is the order, with premium in the pending-payment slot, is made
  basic with limit 50.
\<close>

theorem webhook_completed_ignores_pending_slot:
  "post_create_order sandbox_env 1000 (Decoded ''u1'') (Some ''premium'') (world_of new_user) =
     (Reply 200 (OrderCreated ''TEST-ORDER-1000''), world_of (pending_user ''premium''))
   \<and> post_webhook sandbox_env 2000
       (webhook_delivery (Some ''valid'') ''PAYMENT.CAPTURE.COMPLETED'' ''TEST-ORDER-1000'')
       (world_of (pending_user ''premium'')) =
     (Reply 200 (Msg ''Webhook received''),
      (world_of (pending_user ''premium''))\<lparr>calls := [PaypalVerify]\<rparr>)
   \<and> status (subscription (pending_user ''premium'')) = Some ''free''
   \<and> pendingPlanId (payment (linked_user (pending_user ''premium'') ''TEST-ORDER-1000''))
       = Some ''premium''
   \<and> map_option (\<lambda>u. (status (subscription u), usageLimit u))
       (findById ''u1'' (snd (post_webhook sandbox_env 2000
          (webhook_delivery (Some ''valid'') ''PAYMENT.CAPTURE.COMPLETED'' ''TEST-ORDER-1000'')
          (world_of (linked_user (pending_user ''premium'') ''TEST-ORDER-1000'')))))
       = Some (Some ''basic'', 50)"
  by (simp add: create_order_premium)
     (simp add: post_webhook_def verifyWebhookSignature_def handlePaymentCompleted_def
        findOneByOrderId_def world_of_def new_user_def pending_user_def linked_user_def
        sandbox_env_def signature_ok_def webhook_delivery_def findById_def
        findByIdAndUpdate_def Let_def)

text \<open>
  Claim C9. The claim says that a verified refund (or denial) event for the order of a user
  active on premium reverts the user to free and clears the pending payment. The handler
  looks the user up by \<^verbatim>\<open>subscription.orderId\<close>, which the capture path never sets: after
  an order is captured, the verified refund event for it finds no user, changes no document,
  and the subscription view still shows premium with limit 200. When the handler does find a
  premium user (one whose \<^verbatim>\<open>subscription.orderId\<close> is the order) it reverts the
  subscription and the limit and keeps the customer id, but leaves
  \<^verbatim>\<open>payment.pendingOrderId\<close> as it was.
\<close>

theorem webhook_refund_misses_captured_user:
  "post_capture_order sandbox_env 2000 (Decoded ''u1'') (Some ''TEST-ORDER-1000'')
       (world_of (pending_user ''premium'')) =
     (Reply 200 (CaptureCompleted (Some ''premium'')), world_of (active_user ''premium'' 200 2000))
   \<and> post_webhook sandbox_env 3000
       (webhook_delivery (Some ''valid'') ''PAYMENT.CAPTURE.REFUNDED'' ''TEST-ORDER-1000'')
       (world_of (active_user ''premium'' 200 2000)) =
     (Reply 200 (Msg ''Webhook received''),
      (world_of (active_user ''premium'' 200 2000))\<lparr>calls := [PaypalVerify]\<rparr>)
   \<and> (\<exists>v. fst (get_subscription 4000 (Decoded ''u1'')
               ((world_of (active_user ''premium'' 200 2000))\<lparr>calls := [PaypalVerify]\<rparr>))
             = Reply 200 (SubscriptionJson v)
          \<and> view_status v = Some ''premium'' \<and> view_usageLimit v = 200)
   \<and> map_option (\<lambda>u. (status (subscription u), usageLimit u, endDate (subscription u),
                        customerId (subscription u), pendingOrderId (payment u)))
       (findById ''u1'' (snd (post_webhook sandbox_env 3000
          (webhook_delivery (Some ''valid'') ''PAYMENT.CAPTURE.REFUNDED'' ''TEST-ORDER-1000'')
          (world_of (reordering_user ''TEST-ORDER-1000'' ''TEST-ORDER-2500'')))))
       = Some (Some ''free'', 5, None, Some ''PAYER1'', Some ''TEST-ORDER-2500'')"
  by (simp add: capture_premium)
     (simp add: post_webhook_def verifyWebhookSignature_def handlePaymentDeniedOrRefunded_def
        findOneByOrderId_def world_of_def new_user_def active_user_def pending_user_def
        linked_user_def reordering_user_def sandbox_env_def signature_ok_def
        webhook_delivery_def findById_def findByIdAndUpdate_def Let_def get_subscription_def
        subscription_handler_def auth_def expired_def days_def)

section \<open>The quota the capture path writes\<close>

text \<open>Plan ids are checked when the order is created: a request for anything but basic or
  premium is refused, and a created order records basic or premium.\<close>

lemma create_order_rejects_unknown_plan:
  assumes "auth tc w = Inr (uid, user)"
      and "req_planId \<notin> {Some ''basic'', Some ''premium''}"
  shows "post_create_order e now tc req_planId w = (Reply 400 (Msg ''Invalid plan selected''), w)"
  using assms
  by (auto simp: post_create_order_def create_order_handler_def split: option.splits)

lemma create_order_pending_plan:
  assumes "post_create_order e now tc req_planId w = (Reply 200 (OrderCreated oid), w1)"
      and "auth tc w = Inr (uid, user)"
  shows "\<exists>u1. findById uid w1 = Some u1 \<and> pendingOrderId (payment u1) = Some oid
           \<and> pendingPlanId (payment u1) \<in> {Some ''basic'', Some ''premium''}"
proof -
  from assms(2) have u: "findById uid w = Some user"
    by (simp add: auth_Inr)
  from assms u show ?thesis
    by (auto simp: post_create_order_def create_order_handler_def findById_findByIdAndUpdate
             split: option.splits if_splits sum.splits js_error.splits)
qed

lemma handleCompletedPayment_usageLimit:
  "findById uid w = Some user \<Longrightarrow>
   map_option usageLimit (findById uid (handleCompletedPayment now uid pid w)) =
     Some (if pid = Some ''basic'' then 50 else if pid = Some ''premium'' then 200 else 10)"
  by (simp add: handleCompletedPayment_def findById_findByIdAndUpdate Let_def)

text \<open>
  Claim C8. The claim says that the usage limit the capture path writes on a completed capture
  is the catalog's quota for the plan (basic 50, premium 9999). For premium it is not: after
  \<^verbatim>\<open>create-order\<close> for premium and \<^verbatim>\<open>capture-order\<close> of that order, the stored usage limit
  is 200, where the catalog lists 9999 for premium and the webhook handler writes 9999 for the
  same plan.
\<close>

theorem capture_premium_quota_not_catalog:
  "post_create_order sandbox_env 1000 (Decoded ''u1'') (Some ''premium'') (world_of new_user) =
     (Reply 200 (OrderCreated ''TEST-ORDER-1000''), world_of (pending_user ''premium''))
   \<and> post_capture_order sandbox_env 2000 (Decoded ''u1'') (Some ''TEST-ORDER-1000'')
       (world_of (pending_user ''premium'')) =
     (Reply 200 (CaptureCompleted (Some ''premium'')), world_of (active_user ''premium'' 200 2000))
   \<and> map_option usageLimit (findById ''u1'' (world_of (active_user ''premium'' 200 2000)))
       = Some 200
   \<and> catalog_quota ''premium'' = Some 9999
   \<and> map_option usageLimit (findById ''u1'' (world_of (active_user ''premium'' 200 2000)))
       \<noteq> catalog_quota ''premium''
   \<and> map_option (\<lambda>u. (status (subscription u), usageLimit u))
       (findById ''u1'' (snd (post_webhook sandbox_env 2000
          (webhook_delivery (Some ''valid'') ''PAYMENT.CAPTURE.COMPLETED'' ''TEST-ORDER-1000'')
          (world_of (webhook_premium_user ''TEST-ORDER-1000'')))))
       = Some (Some ''premium'', 9999)"
  by (simp add: create_order_premium capture_premium)
     (simp add: findById_def world_of_def active_user_def new_user_def catalog_quota_def
        plans_def post_webhook_def verifyWebhookSignature_def handlePaymentCompleted_def
        findOneByOrderId_def linked_user_def webhook_premium_user_def sandbox_env_def
        signature_ok_def webhook_delivery_def findByIdAndUpdate_def Let_def)

end
